theory Spec2Isabelle
  imports Main "HOL-Library.AList"
begin

section \<open>JavaScript values and what the module does with them\<close>

text \<open>
  The module (index.js, and its second copy in unnamed/part_000) handles values it knows
  nothing about: the constructor argument, the pages, the browser, the pool, the hooks.
  It only tests them (\<^verbatim>\<open>typeof\<close>, truthiness, \<^verbatim>\<open>Array.isArray\<close>), reads
  and writes properties, and calls them. Numbers are integers or NaN (the module never
  computes with them); a function value is an identifier whose behaviour the environment
  supplies; browsers, pages and pools are objects whose methods the environment supplies.
\<close>

datatype jsval =
    JUndefined
  | JNull
  | JBool bool
  | JNum int
  | JNaN
  | JStr string
  | JBigInt int
  | JSymbol string
  | JArr "jsval list"
  | JObj "(string \<times> jsval) list"
  | JFun nat

fun js_typeof :: "jsval \<Rightarrow> string" where
  "js_typeof JUndefined = ''undefined''"
| "js_typeof JNull = ''object''"
| "js_typeof (JBool b) = ''boolean''"
| "js_typeof (JNum n) = ''number''"
| "js_typeof JNaN = ''number''"
| "js_typeof (JStr s) = ''string''"
| "js_typeof (JBigInt n) = ''bigint''"
| "js_typeof (JSymbol s) = ''symbol''"
| "js_typeof (JArr xs) = ''object''"
| "js_typeof (JObj ps) = ''object''"
| "js_typeof (JFun f) = ''function''"

text \<open>\<^verbatim>\<open>!!v\<close>, and the test of \<^verbatim>\<open>if (v)\<close> and \<^verbatim>\<open>v || w\<close>.\<close>

fun truthy :: "jsval \<Rightarrow> bool" where
  "truthy JUndefined = False"
| "truthy JNull = False"
| "truthy (JBool b) = b"
| "truthy (JNum n) = (n \<noteq> 0)"
| "truthy JNaN = False"
| "truthy (JStr s) = (s \<noteq> [])"
| "truthy (JBigInt n) = (n \<noteq> 0)"
| "truthy (JSymbol s) = True"
| "truthy (JArr xs) = True"
| "truthy (JObj ps) = True"
| "truthy (JFun f) = True"

fun isArray :: "jsval \<Rightarrow> bool" where
  "isArray (JArr xs) = True"
| "isArray v = False"

fun is_boolean :: "jsval \<Rightarrow> bool" where
  "is_boolean (JBool b) = True"
| "is_boolean v = False"

text \<open>The value a failed property access or a call of a non-function throws.\<close>

definition type_error :: jsval where
  "type_error = JObj [(''name'', JStr ''TypeError'')]"

text \<open>
  Reading a property: of \<^verbatim>\<open>null\<close> and \<^verbatim>\<open>undefined\<close> it throws, of an object it
  is the stored value or \<^verbatim>\<open>undefined\<close>. Named properties of the other values are not
  represented and read as \<^verbatim>\<open>undefined\<close>.
\<close>

fun get_prop :: "jsval \<Rightarrow> string \<Rightarrow> jsval + jsval" where
  "get_prop JUndefined k = Inl type_error"
| "get_prop JNull k = Inl type_error"
| "get_prop (JObj ps) k = Inr (case map_of ps k of None \<Rightarrow> JUndefined | Some v \<Rightarrow> v)"
| "get_prop v k = Inr JUndefined"

text \<open>
  A destructured property with a default, \<^verbatim>\<open>const { k = d } = obj\<close>: the default stands
  in for \<^verbatim>\<open>undefined\<close> only (not for \<^verbatim>\<open>null\<close>).
\<close>

definition get_default :: "jsval \<Rightarrow> string \<Rightarrow> jsval \<Rightarrow> jsval + jsval" where
  "get_default obj k d =
     (case get_prop obj k of
        Inl e \<Rightarrow> Inl e
      | Inr v \<Rightarrow> Inr (if v = JUndefined then d else v))"

text \<open>
  Writing a property (class bodies are strict code): on \<^verbatim>\<open>null\<close>, \<^verbatim>\<open>undefined\<close>
  and the primitives it throws; on an object it stores the value; arrays and functions
  accept it, and their named properties are not represented.
\<close>

fun set_prop :: "jsval \<Rightarrow> string \<Rightarrow> jsval \<Rightarrow> jsval + jsval" where
  "set_prop (JObj ps) k v = Inr (JObj (AList.update k v ps))"
| "set_prop (JArr xs) k v = Inr (JArr xs)"
| "set_prop (JFun f) k v = Inr (JFun f)"
| "set_prop u k v = Inl type_error"

section \<open>The PagePool instance\<close>

record pagepool =
  browser :: jsval
  options :: jsval
  pool :: jsval

text \<open>
  The test of the constructor on its argument:
  \<^verbatim>\<open>typeof (options) === 'object' && !!options && !Array.isArray(options)\<close>.
\<close>

definition plain_object :: "jsval \<Rightarrow> bool" where
  "plain_object v \<longleftrightarrow> js_typeof v = ''object'' \<and> truthy v \<and> \<not> isArray v"

text \<open>
  \<^verbatim>\<open>constructor (options = {})\<close>, index.js lines 243-248 (part_000 lines 289-294): the
  default parameter replaces \<^verbatim>\<open>undefined\<close> (and a missing argument) by \<^verbatim>\<open>{}\<close>.
\<close>

definition PagePool_constructor :: "jsval \<Rightarrow> pagepool" where
  "PagePool_constructor arg =
     (let opts = (if arg = JUndefined then JObj [] else arg) in
      \<lparr> browser = JNull,
        options = (if js_typeof opts = ''object'' \<and> truthy opts \<and> \<not> isArray opts
                   then opts else JObj []),
        pool = JNull \<rparr>)"

section \<open>Effects: the trace of a call and how it ends\<close>

text \<open>
  Every method here is \<^verbatim>\<open>async\<close>. A call is modelled by what it does, in order (its
  trace of events), and by how the promise it returns settles: \<open>Inr v\<close> when it resolves
  with \<open>v\<close>, \<open>Inl e\<close> when it rejects with \<open>e\<close>, which is what the caller's
  \<^verbatim>\<open>await\<close> raises. Every awaited promise is taken to settle.
\<close>

datatype event =
    Debug string "jsval list"
  | Call jsval "jsval list"
  | NewPage jsval
  | IsClosed jsval
  | Close jsval
  | Drain jsval
  | Clear jsval
  | BrowserClose jsval
  | Launch jsval jsval
  | CreatePool jsval
  | On jsval string
  | Use jsval
  | Acquire jsval
  | Release jsval jsval

text \<open>
  What calling a function or a method of a collaborator yields: it throws before returning,
  it returns a value that is no promise, or it returns a promise that fulfils or rejects.
\<close>

datatype outcome = Throws jsval | Plain jsval | Fulfilled jsval | Rejected jsval

type_synonym 'a comp = "event list \<times> (jsval + 'a)"

text \<open>\<^verbatim>\<open>await call(...)\<close>.\<close>

fun js_await :: "outcome \<Rightarrow> jsval + jsval" where
  "js_await (Throws e) = Inl e"
| "js_await (Plain v) = Inr v"
| "js_await (Fulfilled v) = Inr v"
| "js_await (Rejected e) = Inl e"

text \<open>Whether a call ends without raising at the caller's \<^verbatim>\<open>await\<close>.\<close>

fun completes :: "outcome \<Rightarrow> bool" where
  "completes (Throws e) = False"
| "completes (Plain v) = True"
| "completes (Fulfilled v) = True"
| "completes (Rejected e) = False"

fun awaited :: "event list \<times> outcome \<Rightarrow> jsval comp" where
  "awaited (evs, out) = (evs, js_await out)"

text \<open>
  \<^verbatim>\<open>await call(...).catch(ex => Helpers.debug(fmt, ex))\<close>: only a rejected promise
  reaches the handler, whose value (that of \<^verbatim>\<open>Helpers.debug\<close>, \<^verbatim>\<open>undefined\<close>) the
  \<^verbatim>\<open>await\<close> then yields. A throwing call never gets to \<^verbatim>\<open>.catch\<close>, and a value that
  is no promise has no \<^verbatim>\<open>catch\<close> method.
\<close>

fun catch_debug :: "string \<Rightarrow> event list \<times> outcome \<Rightarrow> jsval comp" where
  "catch_debug fmt (evs, Throws e) = (evs, Inl e)"
| "catch_debug fmt (evs, Plain v) = (evs, Inl type_error)"
| "catch_debug fmt (evs, Fulfilled v) = (evs, Inr v)"
| "catch_debug fmt (evs, Rejected e) = (evs @ [Debug fmt [e]], Inr JUndefined)"

text \<open>Sequencing: the second part runs only when the first did not raise.\<close>

fun seq :: "'a comp \<Rightarrow> ('a \<Rightarrow> 'b comp) \<Rightarrow> 'b comp" where
  "seq (evs, Inl e) f = (evs, Inl e)"
| "seq (evs, Inr x) f = (evs @ fst (f x), snd (f x))"

text \<open>\<^verbatim>\<open>try { body } catch (ex) { handler }\<close>.\<close>

fun try_catch :: "'a comp \<Rightarrow> (jsval \<Rightarrow> 'a comp) \<Rightarrow> 'a comp" where
  "try_catch (evs, Inl e) h = (evs @ fst (h e), snd (h e))"
| "try_catch (evs, Inr x) h = (evs, Inr x)"

definition debug :: "string \<Rightarrow> jsval list \<Rightarrow> jsval comp" where
  "debug fmt args = ([Debug fmt args], Inr JUndefined)"

definition skip :: "jsval comp" where
  "skip = ([], Inr JUndefined)"

definition nullish :: "jsval \<Rightarrow> bool" where
  "nullish v \<longleftrightarrow> v = JUndefined \<or> v = JNull"

text \<open>
  \<^verbatim>\<open>recv.m(...)\<close>: on \<^verbatim>\<open>null\<close> or \<^verbatim>\<open>undefined\<close> the property read throws and
  nothing is called.
\<close>

definition method_call :: "jsval \<Rightarrow> event \<Rightarrow> outcome \<Rightarrow> event list \<times> outcome" where
  "method_call recv ev out = (if nullish recv then ([], Throws type_error) else ([ev], out))"

section \<open>The collaborators\<close>

text \<open>
  What the module calls and does not define: the user's hooks and handlers
  (\<open>fn_call\<close>), puppeteer's browser and pages, and the pool of the generic-pool package
  (\<^verbatim>\<open>Helpers.createPool\<close>, \<^verbatim>\<open>pool.drain\<close>, \<^verbatim>\<open>pool.clear\<close>, \<^verbatim>\<open>pool.use\<close>).
  \<open>pool_use\<close> is given the callback, which it may run on a page.
\<close>

record env =
  fn_call :: "jsval \<Rightarrow> jsval list \<Rightarrow> outcome"
  browser_newPage :: "jsval \<Rightarrow> outcome"
  page_isClosed :: "jsval \<Rightarrow> jsval + jsval"
  page_close :: "jsval \<Rightarrow> outcome"
  pool_drain :: "jsval \<Rightarrow> outcome"
  pool_clear :: "jsval \<Rightarrow> outcome"
  pool_use :: "jsval \<Rightarrow> (jsval \<Rightarrow> event list \<times> outcome) \<Rightarrow> event list \<times> outcome"
  browser_close :: "jsval \<Rightarrow> outcome"
  puppeteer_launch :: "jsval \<Rightarrow> jsval \<Rightarrow> outcome"
  createPool :: "jsval \<Rightarrow> jsval + jsval"

definition defaultPuppeteer :: jsval where
  "defaultPuppeteer = JObj [(''module'', JStr ''puppeteer'')]"

definition defaultPuppeteerArgs :: jsval where
  "defaultPuppeteerArgs = JArr (map JStr
     [''--disable-breakpad'', ''--disable-crash-reporter'', ''--disable-dev-profile'',
      ''--disable-dev-shm-usage'', ''--disable-notifications'',
      ''--disable-offer-store-unmasked-wallet-cards'',
      ''--disable-offer-upload-credit-cards'', ''--disable-setuid-sandbox'',
      ''--disable-web-security'', ''--enable-async-dns'',
      ''--enable-simple-cache-backend'', ''--enable-tcp-fast-open'',
      ''--media-cache-size=33554432'', ''--no-default-browser-check'', ''--no-pings'',
      ''--no-sandbox'', ''--no-zygote'', ''--prerender-from-omnibox=disabled''])"

definition defaultPuppeteerArgs_part000 :: jsval where
  "defaultPuppeteerArgs_part000 = JArr (map JStr
     [''--disable-crash-reporter'', ''--disable-dev-profile'', ''--disable-gpu'',
      ''--disable-notifications'', ''--disable-offer-store-unmasked-wallet-cards'',
      ''--disable-offer-upload-credit-cards'', ''--disable-password-generation'',
      ''--disable-setuid-sandbox'', ''--disable-speech-api'', ''--disable-suggestions-ui'',
      ''--disable-web-security'', ''--enable-async-dns'', ''--enable-tcp-fast-open'',
      ''--hide-scrollbars'', ''--no-default-browser-check'', ''--no-experiments'',
      ''--no-pings'', ''--no-sandbox'', ''--no-zygote'',
      ''--prerender-from-omnibox=disabled''])"

section \<open>The pool factory\<close>

text \<open>
  \<^verbatim>\<open>Helpers.poolFactory.create\<close>, index.js lines 48-62, bound to the instance.
\<close>

definition poolFactory_create :: "env \<Rightarrow> pagepool \<Rightarrow> jsval comp" where
  "poolFactory_create env this =
     seq ([], get_default (options this) ''onPageCreated'' JNull) (\<lambda>onPageCreated.
     seq (catch_debug ''create page error: %s''
            (method_call (browser this) (NewPage (browser this))
               (browser_newPage env (browser this)))) (\<lambda>page.
     seq (if truthy page then
            seq (debug ''page is created'' []) (\<lambda>_.
              if js_typeof onPageCreated = ''function'' then
                try_catch
                  (seq (awaited ([Call onPageCreated [page]], fn_call env onPageCreated [page]))
                     (\<lambda>_. skip))
                  (\<lambda>ex. debug ''onPageCreated error: %s'' [ex])
              else skip)
          else skip) (\<lambda>_.
     ([], Inr page))))"

text \<open>
  The same method in unnamed/part_000, lines 51-67: it reports the hook's completion too.
\<close>

definition poolFactory_create_part000 :: "env \<Rightarrow> pagepool \<Rightarrow> jsval comp" where
  "poolFactory_create_part000 env this =
     seq ([], get_default (options this) ''onPageCreated'' JNull) (\<lambda>onPageCreated.
     seq (catch_debug ''create page error: %s''
            (method_call (browser this) (NewPage (browser this))
               (browser_newPage env (browser this)))) (\<lambda>page.
     seq (if truthy page then
            seq (debug ''page is created'' []) (\<lambda>_.
              if js_typeof onPageCreated = ''function'' then
                try_catch
                  (seq (awaited ([Call onPageCreated [page]], fn_call env onPageCreated [page]))
                     (\<lambda>_. debug ''onPageCreated done'' []))
                  (\<lambda>ex. debug ''onPageCreated error: %s'' [ex])
              else skip)
          else skip) (\<lambda>_.
     ([], Inr page))))"

text \<open>
  \<^verbatim>\<open>Helpers.poolFactory.destroy\<close>, index.js lines 63-78. \<^verbatim>\<open>page.isClosed()\<close> is an
  ordinary call; \<^verbatim>\<open>page.close()\<close> is awaited outside any \<^verbatim>\<open>try\<close>.
\<close>

definition poolFactory_destroy :: "env \<Rightarrow> pagepool \<Rightarrow> jsval \<Rightarrow> jsval comp" where
  "poolFactory_destroy env this page =
     seq ([], get_default (options this) ''onBeforePageDestroy'' JNull) (\<lambda>onBeforePageDestroy.
     if truthy page then
       seq (if js_typeof onBeforePageDestroy = ''function'' then
              try_catch
                (seq (awaited ([Call onBeforePageDestroy [page]],
                               fn_call env onBeforePageDestroy [page]))
                   (\<lambda>_. skip))
                (\<lambda>ex. debug ''onBeforePageDestroy error: %s'' [ex])
            else skip) (\<lambda>_.
       seq ([IsClosed page], page_isClosed env page) (\<lambda>closed.
       seq (if \<not> truthy closed then
              seq (awaited ([Close page], page_close env page)) (\<lambda>_. skip)
            else skip) (\<lambda>_.
       debug ''page is destroyed'' [])))
     else skip)"

text \<open>
  The same method in unnamed/part_000, lines 68-84: the hook is \<^verbatim>\<open>onPageDestroy\<close> there,
  and its completion is reported.
\<close>

definition poolFactory_destroy_part000 :: "env \<Rightarrow> pagepool \<Rightarrow> jsval \<Rightarrow> jsval comp" where
  "poolFactory_destroy_part000 env this page =
     seq ([], get_default (options this) ''onPageDestroy'' JNull) (\<lambda>onPageDestroy.
     if truthy page then
       seq (if js_typeof onPageDestroy = ''function'' then
              try_catch
                (seq (awaited ([Call onPageDestroy [page]], fn_call env onPageDestroy [page]))
                   (\<lambda>_. debug ''onPageDestroy done'' []))
                (\<lambda>ex. debug ''onPageDestroy error: %s'' [ex])
            else skip) (\<lambda>_.
       seq ([IsClosed page], page_isClosed env page) (\<lambda>closed.
       seq (if \<not> truthy closed then
              seq (awaited ([Close page], page_close env page)) (\<lambda>_. skip)
            else skip) (\<lambda>_.
       debug ''page is destroyed'' [])))
     else skip)"

text \<open>
  \<^verbatim>\<open>Helpers.poolFactory.validate\<close>, index.js lines 79-94: \<^verbatim>\<open>response\<close> starts as
  \<^verbatim>\<open>false\<close>, becomes what the awaited hook yields, or \<^verbatim>\<open>true\<close> without a hook, and is
  returned as it is.
\<close>

definition poolFactory_validate :: "env \<Rightarrow> pagepool \<Rightarrow> jsval \<Rightarrow> jsval comp" where
  "poolFactory_validate env this page =
     seq ([], get_default (options this) ''onValidate'' JNull) (\<lambda>onValidate.
     seq (if truthy page then
            if js_typeof onValidate = ''function'' then
              try_catch
                (awaited ([Call onValidate [page]], fn_call env onValidate [page]))
                (\<lambda>ex. seq (debug ''onValidate error: %s'' [ex]) (\<lambda>_. ([], Inr (JBool False))))
            else ([], Inr (JBool True))
          else ([], Inr (JBool False))) (\<lambda>response.
     ([], Inr response)))"

text \<open>The same method in unnamed/part_000, lines 85-101.\<close>

definition poolFactory_validate_part000 :: "env \<Rightarrow> pagepool \<Rightarrow> jsval \<Rightarrow> jsval comp" where
  "poolFactory_validate_part000 env this page =
     seq ([], get_default (options this) ''onValidate'' JNull) (\<lambda>onValidate.
     seq (if truthy page then
            if js_typeof onValidate = ''function'' then
              try_catch
                (seq (awaited ([Call onValidate [page]], fn_call env onValidate [page]))
                   (\<lambda>response. seq (debug ''onValidate done: %s'' [response])
                      (\<lambda>_. ([], Inr response))))
                (\<lambda>ex. seq (debug ''onValidate error: %s'' [ex]) (\<lambda>_. ([], Inr (JBool False))))
            else ([], Inr (JBool True))
          else ([], Inr (JBool False))) (\<lambda>response.
     ([], Inr response)))"

section \<open>The PagePool methods\<close>

text \<open>
  \<^verbatim>\<open>destroy ()\<close>, index.js lines 259-273 (part_000 lines 305-319, the same text). The
  three fields are reset after the awaited calls: when one of them rejects, the method
  rejects and the instance is as it was.
\<close>

definition PagePool_destroy :: "env \<Rightarrow> pagepool \<Rightarrow> jsval comp \<times> pagepool" where
  "PagePool_destroy env this =
     (case seq (if truthy (pool this) then
                  seq (awaited ([Drain (pool this)], pool_drain env (pool this))) (\<lambda>_.
                  seq (awaited ([Clear (pool this)], pool_clear env (pool this))) (\<lambda>_.
                  debug ''pool is closed'' []))
                else skip) (\<lambda>_.
              if truthy (browser this) then
                seq (awaited ([BrowserClose (browser this)], browser_close env (browser this)))
                  (\<lambda>_. debug ''browser is closed'' [])
              else skip) of
        (evs, Inl e) \<Rightarrow> ((evs, Inl e), this)
      | (evs, Inr _) \<Rightarrow> ((evs, Inr JNull), \<lparr> browser = JNull, options = JNull, pool = JNull \<rparr>))"

text \<open>
  The first two statements of \<^verbatim>\<open>launch\<close>: the three destructured options with their
  defaults, and \<^verbatim>\<open>puppeteerOptions.args = puppeteerOptions.args || defaultPuppeteerArgs\<close>.
  The assignment writes into the caller's own \<^verbatim>\<open>puppeteerOptions\<close> object when one was
  given, so the \<^verbatim>\<open>options\<close> field holds the updated object afterwards.
\<close>

definition alias_update :: "jsval \<Rightarrow> jsval \<Rightarrow> jsval" where
  "alias_update opts po =
     (case opts of
        JObj ps \<Rightarrow>
          (case map_of ps ''puppeteerOptions'' of
             None \<Rightarrow> opts
           | Some v \<Rightarrow> if v = JUndefined then opts
                       else JObj (AList.update ''puppeteerOptions'' po ps))
      | _ \<Rightarrow> opts)"

definition launch_prepare :: "jsval \<Rightarrow> jsval \<Rightarrow> (jsval \<times> jsval \<times> jsval \<times> jsval) comp" where
  "launch_prepare opts dflt =
     seq ([], get_default opts ''poolOptions'' (JObj [])) (\<lambda>poolOptions.
     seq ([], get_default opts ''puppeteer'' defaultPuppeteer) (\<lambda>puppeteer.
     seq ([], get_default opts ''puppeteerOptions'' (JObj [])) (\<lambda>puppeteerOptions.
     seq ([], get_prop puppeteerOptions ''args'') (\<lambda>args.
     seq ([], set_prop puppeteerOptions ''args'' (if truthy args then args else dflt))
       (\<lambda>puppeteerOptions'.
     ([], Inr (poolOptions, puppeteer, puppeteerOptions',
               alias_update opts puppeteerOptions')))))))"

text \<open>
  \<^verbatim>\<open>launch ()\<close>, index.js lines 282-305: \<^verbatim>\<open>puppeteer.launch\<close> is awaited with no
  \<^verbatim>\<open>catch\<close>, and the pool is created whatever the browser is.
\<close>

definition PagePool_launch :: "env \<Rightarrow> pagepool \<Rightarrow> jsval comp \<times> pagepool" where
  "PagePool_launch env this =
     (case launch_prepare (options this) defaultPuppeteerArgs of
        (evs0, Inl e) \<Rightarrow> ((evs0, Inl e), this)
      | (evs0, Inr (poolOptions, puppeteer, puppeteerOptions, opts')) \<Rightarrow>
          (case awaited (method_call puppeteer (Launch puppeteer puppeteerOptions)
                           (puppeteer_launch env puppeteer puppeteerOptions)) of
             (evs1, Inl e) \<Rightarrow> ((evs1, Inl e), this\<lparr>options := opts'\<rparr>)
           | (evs1, Inr b) \<Rightarrow>
               (case createPool env poolOptions of
                  Inl e \<Rightarrow>
                    ((evs1 @ [Debug ''browser is created'' [], CreatePool poolOptions], Inl e),
                     this\<lparr>options := opts', browser := b\<rparr>)
                | Inr p \<Rightarrow>
                    ((evs1 @ [Debug ''browser is created'' [], CreatePool poolOptions]
                        @ (if truthy p
                           then [Debug ''pool is created'' [], On p ''factoryCreateError'',
                                 On p ''factoryDestroyError'']
                           else [Debug ''pool is not created'' []]),
                      Inr JUndefined),
                     this\<lparr>options := opts', browser := b, pool := p\<rparr>))))"

text \<open>
  \<^verbatim>\<open>launch ()\<close> in unnamed/part_000, lines 328-356: a rejected \<^verbatim>\<open>puppeteer.launch\<close>
  is caught and reported, and the pool is created only when there is a browser.
\<close>

definition PagePool_launch_part000 :: "env \<Rightarrow> pagepool \<Rightarrow> jsval comp \<times> pagepool" where
  "PagePool_launch_part000 env this =
     (case launch_prepare (options this) defaultPuppeteerArgs_part000 of
        (evs0, Inl e) \<Rightarrow> ((evs0, Inl e), this)
      | (evs0, Inr (poolOptions, puppeteer, puppeteerOptions, opts')) \<Rightarrow>
          (case catch_debug ''browser create error: %s''
                  (method_call puppeteer (Launch puppeteer puppeteerOptions)
                     (puppeteer_launch env puppeteer puppeteerOptions)) of
             (evs1, Inl e) \<Rightarrow> ((evs1, Inl e), this\<lparr>options := opts'\<rparr>)
           | (evs1, Inr b) \<Rightarrow>
               (case (if truthy b
                      then (case createPool env poolOptions of
                              Inl e \<Rightarrow>
                                ([Debug ''browser is created with: %j'' [puppeteerOptions],
                                  CreatePool poolOptions], Inl e)
                            | Inr p \<Rightarrow>
                                ([Debug ''browser is created with: %j'' [puppeteerOptions],
                                  CreatePool poolOptions], Inr p))
                      else ([], Inr (pool this))) of
                  (evs2, Inl e) \<Rightarrow>
                    ((evs1 @ evs2, Inl e), this\<lparr>options := opts', browser := b\<rparr>)
                | (evs2, Inr p) \<Rightarrow>
                    ((evs1 @ evs2
                        @ (if truthy p
                           then [Debug ''pool is created with: %j'' [poolOptions],
                                 On p ''factoryCreateError'', On p ''factoryDestroyError'']
                           else [Debug ''pool is not created'' []]),
                      Inr JUndefined),
                     this\<lparr>options := opts', browser := b, pool := p\<rparr>))))"

text \<open>
  \<^verbatim>\<open>process (handler, ...args)\<close>, index.js lines 331-340 (part_000 lines 382-391, the
  same but for layout). The callback given to \<^verbatim>\<open>pool.use\<close> calls the handler with the
  page, the arguments and the pool.
\<close>

definition PagePool_process :: "env \<Rightarrow> pagepool \<Rightarrow> jsval \<Rightarrow> jsval list \<Rightarrow> jsval comp" where
  "PagePool_process env this handler args =
     (if \<not> truthy (pool this) then
        debug ''pool is not found. Did you forgot to call launch() method?'' []
      else if js_typeof handler \<noteq> ''function'' then
        debug ''handler is not a function'' []
      else
        seq (catch_debug ''process error: %s''
               (case pool_use env (pool this)
                       (\<lambda>page. ([Call handler (page # args @ [pool this])],
                                 fn_call env handler (page # args @ [pool this]))) of
                  (evs, out) \<Rightarrow> (Use (pool this) # evs, out)))
          (\<lambda>_. skip))"

section \<open>The pool engine\<close>

text \<open>
  Modelled from the spec: \<^verbatim>\<open>pool.use\<close>, the borrow-use-release operation of the pool
  engine. The engine is the generic-pool package, which index.js obtains through
  \<^verbatim>\<open>Helpers.createPool\<close>; its code is not part of the sources. In the spec's words
  (section 4.3): acquire a Resource, invoke the handler, then always release the Resource
  back to the Pool Engine, whether the handler completes normally or fails. \<open>acquired\<close>
  is how the acquisition ends: a page, or a failure (creation failure or timeout, sections
  4.2 and 5), which is what \<^verbatim>\<open>use\<close> then rejects with. A handler failure rejects the
  promise of \<^verbatim>\<open>use\<close>.
\<close>

definition spec_use ::
  "jsval + jsval \<Rightarrow> jsval \<Rightarrow> (jsval \<Rightarrow> event list \<times> outcome) \<Rightarrow> event list \<times> outcome" where
  "spec_use acquired p cb =
     (case acquired of
        Inl e \<Rightarrow> ([Acquire p], Rejected e)
      | Inr page \<Rightarrow>
          (Acquire p # fst (cb page) @ [Release p page],
           (case js_await (snd (cb page)) of
              Inl e \<Rightarrow> Rejected e
            | Inr v \<Rightarrow> Fulfilled v)))"

text \<open>
  Modelled from the spec: the admission control of the pool engine (section 4.2), which is
  the generic-pool package and not part of the sources. The engine holds the idle pages,
  the borrowed pages with their borrowers, and the pending borrow requests in arrival
  order.
\<close>

record engine =
  max_size :: nat
  idle :: "jsval list"
  borrowed :: "(nat \<times> jsval) list"
  waiting :: "nat list"

text \<open>Modelled from the spec: a pool engine that has lent nothing yet (section 4.2).\<close>

definition new_engine :: "nat \<Rightarrow> engine" where
  "new_engine m = \<lparr> max_size = m, idle = [], borrowed = [], waiting = [] \<rparr>"

text \<open>
  Modelled from the spec: handing a page to a borrower. An idle page is validated first;
  an invalid one is destroyed and a fresh one is created in its place. With no idle page
  and fewer live pages than the maximum, a page is created. \<open>made\<close> is what the
  factory's \<^verbatim>\<open>create\<close> produces when it is called: a page, or nothing (creation
  failure, signalled to the borrower, who then holds nothing).
\<close>

definition lend :: "(jsval \<Rightarrow> bool) \<Rightarrow> nat \<Rightarrow> jsval option \<Rightarrow> engine \<Rightarrow> engine" where
  "lend valid r made s =
     (case idle s of
        p # ps \<Rightarrow>
          if valid p then s\<lparr> idle := ps, borrowed := borrowed s @ [(r, p)] \<rparr>
          else (case made of
                  Some q \<Rightarrow> s\<lparr> idle := ps, borrowed := borrowed s @ [(r, q)] \<rparr>
                | None \<Rightarrow> s\<lparr> idle := ps \<rparr>)
      | [] \<Rightarrow>
          (case made of
             Some q \<Rightarrow> s\<lparr> borrowed := borrowed s @ [(r, q)] \<rparr>
           | None \<Rightarrow> s))"

text \<open>
  Modelled from the spec: \<^verbatim>\<open>acquire\<close>. At the maximum (no idle page, and as many live
  pages as configured) the caller is enqueued.
\<close>

definition acquire :: "(jsval \<Rightarrow> bool) \<Rightarrow> nat \<Rightarrow> jsval option \<Rightarrow> engine \<Rightarrow> engine" where
  "acquire valid r made s =
     (if idle s = [] \<and> max_size s \<le> length (borrowed s)
      then s\<lparr> waiting := waiting s @ [r] \<rparr>
      else lend valid r made s)"

text \<open>
  Modelled from the spec: \<^verbatim>\<open>release\<close> returns a borrowed page to the idle set; the
  pending requests are served in arrival order as pages become free. A page that is not
  borrowed is not taken.
\<close>

text \<open>
  Modelled from the spec: taking a page out of the borrowed ones, when it is released
  (section 4.2).
\<close>

fun unborrow :: "jsval \<Rightarrow> (nat \<times> jsval) list \<Rightarrow> (nat \<times> jsval) list" where
  "unborrow p [] = []"
| "unborrow p ((r, q) # bs) = (if q = p then bs else (r, q) # unborrow p bs)"

definition release :: "(jsval \<Rightarrow> bool) \<Rightarrow> jsval \<Rightarrow> jsval option \<Rightarrow> engine \<Rightarrow> engine" where
  "release valid p made s =
     (if p \<in> snd ` set (borrowed s) then
        (let s' = s\<lparr> borrowed := unborrow p (borrowed s), idle := idle s @ [p] \<rparr>
         in case waiting s' of
              [] \<Rightarrow> s'
            | r # rs \<Rightarrow> lend valid r made (s'\<lparr> waiting := rs \<rparr>))
      else s)"

text \<open>
  Modelled from the spec: the sequences of \<^verbatim>\<open>acquire\<close> and \<^verbatim>\<open>release\<close> calls on an
  engine (section 8). Each call carries what the factory's \<^verbatim>\<open>create\<close> would produce,
  should the engine need a fresh page while serving it.
\<close>

datatype pool_op = AcquireOp nat "jsval option" | ReleaseOp jsval "jsval option"

fun pool_step :: "(jsval \<Rightarrow> bool) \<Rightarrow> engine \<Rightarrow> pool_op \<Rightarrow> engine" where
  "pool_step valid s (AcquireOp r made) = acquire valid r made s"
| "pool_step valid s (ReleaseOp p made) = release valid p made s"

text \<open>Modelled from the spec: running such a sequence on a new engine of maximum \<open>m\<close>.\<close>

definition run_pool :: "(jsval \<Rightarrow> bool) \<Rightarrow> nat \<Rightarrow> pool_op list \<Rightarrow> engine" where
  "run_pool valid m ops = foldl (pool_step valid) (new_engine m) ops"

text \<open>
  Modelled from the spec: what every reachable engine state satisfies. The live pages are
  at most the maximum, and a request waits only while no page is idle.
\<close>

definition within_capacity :: "engine \<Rightarrow> bool" where
  "within_capacity s \<longleftrightarrow>
     length (idle s) + length (borrowed s) \<le> max_size s \<and> (waiting s \<noteq> [] \<longrightarrow> idle s = [])"

section \<open>Concrete collaborators\<close>

text \<open>
  A browser, a page and a pool, and collaborators that all succeed: hooks and handlers
  return \<^verbatim>\<open>undefined\<close>, the page reports itself open, the pool's \<^verbatim>\<open>use\<close> lends the
  page. The variants fail in one place each.
\<close>

definition a_browser :: jsval where
  "a_browser = JObj [(''browser'', JNum 1)]"

definition a_page :: jsval where
  "a_page = JObj [(''page'', JNum 1)]"

definition a_pool :: jsval where
  "a_pool = JObj [(''pool'', JNum 1)]"

definition an_error :: jsval where
  "an_error = JObj [(''name'', JStr ''Error''), (''message'', JStr ''error'')]"

definition calm_env :: env where
  "calm_env =
     \<lparr> fn_call = (\<lambda>f args. Plain JUndefined),
       browser_newPage = (\<lambda>b. Fulfilled a_page),
       page_isClosed = (\<lambda>p. Inr (JBool False)),
       page_close = (\<lambda>p. Fulfilled JUndefined),
       pool_drain = (\<lambda>p. Fulfilled JUndefined),
       pool_clear = (\<lambda>p. Fulfilled JUndefined),
       pool_use = spec_use (Inr a_page),
       browser_close = (\<lambda>b. Fulfilled JUndefined),
       puppeteer_launch = (\<lambda>p opts. Fulfilled a_browser),
       createPool = (\<lambda>opts. Inr a_pool) \<rparr>"

definition failing_hooks_env :: env where
  "failing_hooks_env = calm_env\<lparr> fn_call := (\<lambda>f args. Throws an_error) \<rparr>"

definition no_page_env :: env where
  "no_page_env = calm_env\<lparr> browser_newPage := (\<lambda>b. Rejected an_error) \<rparr>"

definition no_browser_env :: env where
  "no_browser_env = calm_env\<lparr> puppeteer_launch := (\<lambda>p opts. Rejected an_error) \<rparr>"

text \<open>
  Collaborators whose pool cannot give a page: the acquisition inside \<^verbatim>\<open>use\<close> fails
  (a creation failure or an acquire timeout, spec sections 4.2 and 5).
\<close>

definition no_acquire_env :: env where
  "no_acquire_env = calm_env\<lparr> pool_use := spec_use (Inl an_error) \<rparr>"

definition stuck_browser_env :: env where
  "stuck_browser_env = calm_env\<lparr> browser_close := (\<lambda>b. Rejected an_error) \<rparr>"

definition closed_page_env :: env where
  "closed_page_env = calm_env\<lparr> page_isClosed := (\<lambda>p. Inr (JBool True)) \<rparr>"

definition number_hooks_env :: env where
  "number_hooks_env = calm_env\<lparr> fn_call := (\<lambda>f args. Plain (JNum 1)) \<rparr>"

definition launched :: pagepool where
  "launched = \<lparr> browser = a_browser, options = JObj [], pool = a_pool \<rparr>"

definition all_valid :: "jsval \<Rightarrow> bool" where
  "all_valid p = True"

text \<open>
  Two borrowers on an engine of maximum 1: the first is lent a fresh page, the second
  waits.
\<close>

definition two_borrowers :: "pool_op list" where
  "two_borrowers = [AcquireOp 1 (Some a_page), AcquireOp 2 None]"

section \<open>The constructor\<close>

lemma plain_object_iff: "plain_object v \<longleftrightarrow> (\<exists>ps. v = JObj ps)"
  by (cases v) (simp_all add: plain_object_def)

text \<open>
  Claim C10. Whatever is passed to the constructor, the new instance has
  \<^verbatim>\<open>browser = null\<close>, \<^verbatim>\<open>pool = null\<close> and an \<^verbatim>\<open>options\<close> field that is a non-null,
  non-array object: the argument itself when the argument is such an object, the empty
  object otherwise (for \<^verbatim>\<open>undefined\<close>, \<^verbatim>\<open>null\<close>, an array, a function or a primitive).
\<close>

theorem constructor_options_object:
  "browser (PagePool_constructor arg) = JNull
   \<and> pool (PagePool_constructor arg) = JNull
   \<and> plain_object (options (PagePool_constructor arg))
   \<and> (plain_object arg \<longrightarrow> options (PagePool_constructor arg) = arg)
   \<and> (\<not> plain_object arg \<longrightarrow> options (PagePool_constructor arg) = JObj [])"
  by (cases arg) (simp_all add: PagePool_constructor_def plain_object_def)

theorem constructor_options_object_witness:
  "plain_object (JObj [(''poolOptions'', JObj [(''max'', JNum 3)])])
   \<and> options (PagePool_constructor (JObj [(''poolOptions'', JObj [(''max'', JNum 3)])]))
       = JObj [(''poolOptions'', JObj [(''max'', JNum 3)])]
   \<and> \<not> plain_object (JArr [JNum 1])
   \<and> options (PagePool_constructor (JArr [JNum 1])) = JObj []
   \<and> \<not> plain_object JNull
   \<and> options (PagePool_constructor JNull) = JObj []"
  using constructor_options_object [of "JObj [(''poolOptions'', JObj [(''max'', JNum 3)])]"]
    constructor_options_object [of "JArr [JNum 1]"]
    constructor_options_object [of JNull]
  by (simp add: plain_object_def)

text \<open>
  An instance fresh from the constructor lets every hook be read: the destructuring at
  the head of each factory method does not throw.
\<close>

lemma constructor_hooks_readable:
  "\<exists>hook. get_default (options (PagePool_constructor arg)) k JNull = Inr hook"
  using plain_object_iff [of "options (PagePool_constructor arg)"]
  by (cases arg) (auto simp: PagePool_constructor_def get_default_def)

section \<open>The pool factory: create\<close>

text \<open>
  Claim C3. On an instance whose options can be read and whose browser is there, in both
  copies of the factory: when minting the page fails (the promise of
  \<^verbatim>\<open>browser.newPage()\<close> rejects), \<^verbatim>\<open>create\<close> reports it and resolves with
  \<^verbatim>\<open>undefined\<close>, it does not raise; when minting succeeds and the \<^verbatim>\<open>onPageCreated\<close>
  hook throws or rejects, the trace holds exactly one diagnostic for the hook error (after
  the one for the created page) and \<^verbatim>\<open>create\<close> still resolves with the new page.
\<close>

theorem create_failure_isolation:
  assumes "get_default (options this) ''onPageCreated'' JNull = Inr hook"
    and "\<not> nullish (browser this)"
  shows "(browser_newPage env (browser this) = Rejected e \<longrightarrow>
            poolFactory_create env this =
              ([NewPage (browser this), Debug ''create page error: %s'' [e]], Inr JUndefined)
          \<and> poolFactory_create_part000 env this =
              ([NewPage (browser this), Debug ''create page error: %s'' [e]], Inr JUndefined))
       \<and> (browser_newPage env (browser this) = Fulfilled page \<and> truthy page
            \<and> js_typeof hook = ''function''
            \<and> js_await (fn_call env hook [page]) = Inl ex \<longrightarrow>
            poolFactory_create env this =
              ([NewPage (browser this), Debug ''page is created'' [], Call hook [page],
                Debug ''onPageCreated error: %s'' [ex]], Inr page)
          \<and> poolFactory_create_part000 env this =
              ([NewPage (browser this), Debug ''page is created'' [], Call hook [page],
                Debug ''onPageCreated error: %s'' [ex]], Inr page))"
  using assms
  by (simp add: poolFactory_create_def poolFactory_create_part000_def method_call_def debug_def
        skip_def)

theorem create_failure_isolation_witness:
  "poolFactory_create no_page_env launched =
     ([NewPage a_browser, Debug ''create page error: %s'' [an_error]], Inr JUndefined)
   \<and> poolFactory_create_part000 no_page_env launched =
     ([NewPage a_browser, Debug ''create page error: %s'' [an_error]], Inr JUndefined)
   \<and> poolFactory_create failing_hooks_env
        (launched\<lparr>options := JObj [(''onPageCreated'', JFun 0)]\<rparr>) =
     ([NewPage a_browser, Debug ''page is created'' [], Call (JFun 0) [a_page],
       Debug ''onPageCreated error: %s'' [an_error]], Inr a_page)
   \<and> poolFactory_create_part000 failing_hooks_env
        (launched\<lparr>options := JObj [(''onPageCreated'', JFun 0)]\<rparr>) =
     ([NewPage a_browser, Debug ''page is created'' [], Call (JFun 0) [a_page],
       Debug ''onPageCreated error: %s'' [an_error]], Inr a_page)"
  using create_failure_isolation [of launched JNull no_page_env an_error a_page an_error]
    create_failure_isolation [of "launched\<lparr>options := JObj [(''onPageCreated'', JFun 0)]\<rparr>"
      "JFun 0" failing_hooks_env an_error a_page an_error]
  by (simp add: launched_def get_default_def nullish_def a_browser_def a_page_def
        no_page_env_def failing_hooks_env_def calm_env_def)

section \<open>The pool factory: validate\<close>

text \<open>
  Claim C4. On an instance whose options can be read, in both copies of the factory:
  an absent (falsy) page is ineligible, \<^verbatim>\<open>validate\<close> resolves with \<^verbatim>\<open>false\<close>; a
  present page with no \<^verbatim>\<open>onValidate\<close> function configured is eligible, it resolves with
  \<^verbatim>\<open>true\<close>; a present page whose \<^verbatim>\<open>onValidate\<close> hook throws or rejects is
  ineligible, it reports the error and resolves with \<^verbatim>\<open>false\<close>.
\<close>

theorem validate_eligibility:
  assumes "get_default (options this) ''onValidate'' JNull = Inr hook"
  shows "(\<not> truthy page \<longrightarrow>
            poolFactory_validate env this page = ([], Inr (JBool False))
          \<and> poolFactory_validate_part000 env this page = ([], Inr (JBool False)))
       \<and> (truthy page \<and> js_typeof hook \<noteq> ''function'' \<longrightarrow>
            poolFactory_validate env this page = ([], Inr (JBool True))
          \<and> poolFactory_validate_part000 env this page = ([], Inr (JBool True)))
       \<and> (truthy page \<and> js_typeof hook = ''function''
            \<and> js_await (fn_call env hook [page]) = Inl ex \<longrightarrow>
            poolFactory_validate env this page =
              ([Call hook [page], Debug ''onValidate error: %s'' [ex]], Inr (JBool False))
          \<and> poolFactory_validate_part000 env this page =
              ([Call hook [page], Debug ''onValidate error: %s'' [ex]], Inr (JBool False)))"
  using assms
  by (simp add: poolFactory_validate_def poolFactory_validate_part000_def debug_def)

theorem validate_eligibility_witness:
  "poolFactory_validate calm_env launched JUndefined = ([], Inr (JBool False))
   \<and> poolFactory_validate_part000 calm_env launched JUndefined = ([], Inr (JBool False))
   \<and> poolFactory_validate calm_env launched a_page = ([], Inr (JBool True))
   \<and> poolFactory_validate_part000 calm_env launched a_page = ([], Inr (JBool True))
   \<and> poolFactory_validate failing_hooks_env
        (launched\<lparr>options := JObj [(''onValidate'', JFun 0)]\<rparr>) a_page =
     ([Call (JFun 0) [a_page], Debug ''onValidate error: %s'' [an_error]], Inr (JBool False))
   \<and> poolFactory_validate_part000 failing_hooks_env
        (launched\<lparr>options := JObj [(''onValidate'', JFun 0)]\<rparr>) a_page =
     ([Call (JFun 0) [a_page], Debug ''onValidate error: %s'' [an_error]], Inr (JBool False))"
  using validate_eligibility [of launched JNull JUndefined calm_env an_error]
    validate_eligibility [of launched JNull a_page calm_env an_error]
    validate_eligibility [of "launched\<lparr>options := JObj [(''onValidate'', JFun 0)]\<rparr>"
      "JFun 0" a_page failing_hooks_env an_error]
  by (simp add: launched_def get_default_def a_page_def failing_hooks_env_def calm_env_def)

text \<open>
  Claim C5, as stated, fails: the result of \<^verbatim>\<open>validate\<close> is not always a boolean. With an
  \<^verbatim>\<open>onValidate\<close> hook that returns the number 1, both copies resolve with the number 1.
\<close>

theorem validate_not_boolean:
  "poolFactory_validate number_hooks_env
     (PagePool_constructor (JObj [(''onValidate'', JFun 0)])) a_page
     = ([Call (JFun 0) [a_page]], Inr (JNum 1))
   \<and> poolFactory_validate_part000 number_hooks_env
     (PagePool_constructor (JObj [(''onValidate'', JFun 0)])) a_page
     = ([Call (JFun 0) [a_page], Debug ''onValidate done: %s'' [JNum 1]], Inr (JNum 1))
   \<and> \<not> is_boolean (JNum 1)"
  by (simp add: poolFactory_validate_def poolFactory_validate_part000_def debug_def
        PagePool_constructor_def get_default_def number_hooks_env_def calm_env_def a_page_def)

text \<open>
  Claim C5, amended. On an instance whose options can be read, in both copies of the
  factory, \<^verbatim>\<open>validate\<close> never raises and resolves with the boolean \<^verbatim>\<open>false\<close> for an
  absent page and for a hook that throws or rejects, with the boolean \<^verbatim>\<open>true\<close> for a
  present page with no \<^verbatim>\<open>onValidate\<close> function, and, when the hook completes, with the
  hook's own result, passed on as it is and not coerced: the result is a boolean exactly
  when the hook's is.
\<close>

theorem validate_returns_hook_result:
  assumes "get_default (options this) ''onValidate'' JNull = Inr hook"
  shows "snd (poolFactory_validate env this page) =
           Inr (if \<not> truthy page then JBool False
                else if js_typeof hook \<noteq> ''function'' then JBool True
                else (case js_await (fn_call env hook [page]) of
                        Inl ex \<Rightarrow> JBool False
                      | Inr v \<Rightarrow> v))
       \<and> snd (poolFactory_validate_part000 env this page) =
           Inr (if \<not> truthy page then JBool False
                else if js_typeof hook \<noteq> ''function'' then JBool True
                else (case js_await (fn_call env hook [page]) of
                        Inl ex \<Rightarrow> JBool False
                      | Inr v \<Rightarrow> v))"
  using assms
  by (simp add: poolFactory_validate_def poolFactory_validate_part000_def debug_def
           split: sum.splits)

theorem validate_returns_hook_result_witness:
  "snd (poolFactory_validate number_hooks_env
          (launched\<lparr>options := JObj [(''onValidate'', JFun 0)]\<rparr>) a_page) = Inr (JNum 1)
   \<and> snd (poolFactory_validate_part000 number_hooks_env
          (launched\<lparr>options := JObj [(''onValidate'', JFun 0)]\<rparr>) a_page) = Inr (JNum 1)
   \<and> snd (poolFactory_validate calm_env launched a_page) = Inr (JBool True)
   \<and> snd (poolFactory_validate_part000 calm_env launched JNull) = Inr (JBool False)"
  using validate_returns_hook_result
      [of "launched\<lparr>options := JObj [(''onValidate'', JFun 0)]\<rparr>" "JFun 0" number_hooks_env
        a_page]
    validate_returns_hook_result [of launched JNull calm_env a_page]
    validate_returns_hook_result [of launched JNull calm_env JNull]
  by (simp add: launched_def get_default_def a_page_def number_hooks_env_def calm_env_def)

section \<open>The pool factory: destroy\<close>

text \<open>
  Claim C6. On an instance whose options can be read, in both copies of the factory
  (the hook is \<^verbatim>\<open>onBeforePageDestroy\<close> in index.js, \<^verbatim>\<open>onPageDestroy\<close> in part_000):
  with an absent page \<^verbatim>\<open>destroy\<close> does nothing, no hook call, no close, no
  diagnostic. With a present page whose \<^verbatim>\<open>isClosed()\<close> answers: the hook, when it is a
  function, is called first; its failure is reported and not propagated; \<^verbatim>\<open>close()\<close>
  is called only when \<^verbatim>\<open>isClosed()\<close> answered that the page is open; and when the
  close step completes (at once if the page was closed already), the last event is the
  diagnostic \<^verbatim>\<open>page is destroyed\<close> and \<^verbatim>\<open>destroy\<close> resolves, whatever the hook did.
  Only a failing \<^verbatim>\<open>close()\<close> makes \<^verbatim>\<open>destroy\<close> reject, with no such diagnostic.
\<close>

theorem factory_destroy_steps:
  assumes "get_default (options this) ''onBeforePageDestroy'' JNull = Inr hook"
    and "get_default (options this) ''onPageDestroy'' JNull = Inr hook'"
  shows "(\<not> truthy page \<longrightarrow>
            poolFactory_destroy env this page = ([], Inr JUndefined)
          \<and> poolFactory_destroy_part000 env this page = ([], Inr JUndefined))
       \<and> (truthy page \<and> page_isClosed env page = Inr closed \<longrightarrow>
            poolFactory_destroy env this page =
              ((if js_typeof hook = ''function''
                then Call hook [page] #
                       (case js_await (fn_call env hook [page]) of
                          Inl ex \<Rightarrow> [Debug ''onBeforePageDestroy error: %s'' [ex]]
                        | Inr v \<Rightarrow> [])
                else [])
               @ [IsClosed page]
               @ (if truthy closed then [Debug ''page is destroyed'' []]
                  else Close page #
                         (if completes (page_close env page)
                          then [Debug ''page is destroyed'' []] else [])),
               if truthy closed \<or> completes (page_close env page) then Inr JUndefined
               else js_await (page_close env page))
          \<and> poolFactory_destroy_part000 env this page =
              ((if js_typeof hook' = ''function''
                then Call hook' [page] #
                       (case js_await (fn_call env hook' [page]) of
                          Inl ex \<Rightarrow> [Debug ''onPageDestroy error: %s'' [ex]]
                        | Inr v \<Rightarrow> [Debug ''onPageDestroy done'' []])
                else [])
               @ [IsClosed page]
               @ (if truthy closed then [Debug ''page is destroyed'' []]
                  else Close page #
                         (if completes (page_close env page)
                          then [Debug ''page is destroyed'' []] else [])),
               if truthy closed \<or> completes (page_close env page) then Inr JUndefined
               else js_await (page_close env page)))"
  using assms
  by (cases "page_close env page")
     (simp_all add: poolFactory_destroy_def poolFactory_destroy_part000_def debug_def skip_def
        split: sum.splits)

theorem factory_destroy_steps_witness:
  "poolFactory_destroy calm_env launched JUndefined = ([], Inr JUndefined)
   \<and> poolFactory_destroy_part000 calm_env launched JUndefined = ([], Inr JUndefined)
   \<and> poolFactory_destroy failing_hooks_env
        (launched\<lparr>options :=
           JObj [(''onBeforePageDestroy'', JFun 0), (''onPageDestroy'', JFun 1)]\<rparr>) a_page =
     ([Call (JFun 0) [a_page], Debug ''onBeforePageDestroy error: %s'' [an_error],
       IsClosed a_page, Close a_page, Debug ''page is destroyed'' []], Inr JUndefined)
   \<and> poolFactory_destroy_part000 failing_hooks_env
        (launched\<lparr>options :=
           JObj [(''onBeforePageDestroy'', JFun 0), (''onPageDestroy'', JFun 1)]\<rparr>) a_page =
     ([Call (JFun 1) [a_page], Debug ''onPageDestroy error: %s'' [an_error],
       IsClosed a_page, Close a_page, Debug ''page is destroyed'' []], Inr JUndefined)
   \<and> poolFactory_destroy closed_page_env launched a_page =
     ([IsClosed a_page, Debug ''page is destroyed'' []], Inr JUndefined)"
  using factory_destroy_steps [of launched JNull JNull JUndefined calm_env "JBool False"]
    factory_destroy_steps
      [of "launched\<lparr>options :=
             JObj [(''onBeforePageDestroy'', JFun 0), (''onPageDestroy'', JFun 1)]\<rparr>"
        "JFun 0" "JFun 1" a_page failing_hooks_env "JBool False"]
    factory_destroy_steps [of launched JNull JNull a_page closed_page_env "JBool True"]
  by (simp add: launched_def get_default_def a_page_def failing_hooks_env_def
        closed_page_env_def calm_env_def)

section \<open>launch\<close>

text \<open>
  Claim C2 on index.js: when the promise of \<^verbatim>\<open>puppeteer.launch\<close> rejects,
  \<^verbatim>\<open>launch()\<close> rejects with the same error, since the call is awaited with no
  \<^verbatim>\<open>catch\<close>. Here a new instance with default options meets a puppeteer that
  cannot start the browser: the error reaches the caller of \<^verbatim>\<open>launch()\<close>. The pool is
  not created and the instance stays as the constructor left it.
\<close>

theorem launch_failure_raises:
  "PagePool_launch no_browser_env (PagePool_constructor JUndefined) =
     (([Launch defaultPuppeteer (JObj [(''args'', defaultPuppeteerArgs)])], Inl an_error),
      \<lparr> browser = JNull, options = JObj [], pool = JNull \<rparr>)"
  by (simp add: PagePool_launch_def launch_prepare_def get_default_def alias_update_def
        PagePool_constructor_def method_call_def nullish_def defaultPuppeteer_def
        no_browser_env_def calm_env_def)

text \<open>
  The copy in unnamed/part_000 does what the claim says: the rejection is caught and
  reported, \<^verbatim>\<open>launch()\<close> resolves, no pool is created, the \<^verbatim>\<open>pool\<close> field stays
  \<^verbatim>\<open>null\<close>, and every later \<^verbatim>\<open>process\<close> call reports one diagnostic and resolves.
\<close>

lemma launch_part000_failure_reported:
  assumes "launch_prepare (options this) defaultPuppeteerArgs_part000
             = ([], Inr (poolOptions, puppeteer, po, opts'))"
    and "\<not> nullish puppeteer"
    and "puppeteer_launch env puppeteer po = Rejected e"
    and "pool this = JNull"
  shows "PagePool_launch_part000 env this =
           (([Launch puppeteer po, Debug ''browser create error: %s'' [e],
              Debug ''pool is not created'' []], Inr JUndefined),
            this\<lparr>options := opts', browser := JUndefined, pool := JNull\<rparr>)"
    and "PagePool_process env' (snd (PagePool_launch_part000 env this)) handler args =
           ([Debug ''pool is not found. Did you forgot to call launch() method?'' []],
            Inr JUndefined)"
  using assms
  by (simp_all add: PagePool_launch_part000_def method_call_def PagePool_process_def debug_def)

lemma launch_part000_failure_example:
  "PagePool_launch_part000 no_browser_env (PagePool_constructor JUndefined) =
     (([Launch defaultPuppeteer (JObj [(''args'', defaultPuppeteerArgs_part000)]),
        Debug ''browser create error: %s'' [an_error],
        Debug ''pool is not created'' []], Inr JUndefined),
      \<lparr> browser = JUndefined, options = JObj [], pool = JNull \<rparr>)"
  by (simp add: PagePool_launch_part000_def launch_prepare_def get_default_def alias_update_def
        PagePool_constructor_def method_call_def nullish_def defaultPuppeteer_def
        no_browser_env_def calm_env_def)

text \<open>
  In index.js too, the instance left by the failed launch has no pool, and a later
  \<^verbatim>\<open>process\<close> call reports one diagnostic and resolves.
\<close>

lemma process_after_failed_launch:
  "PagePool_process env
     (snd (PagePool_launch no_browser_env (PagePool_constructor JUndefined))) handler args =
     ([Debug ''pool is not found. Did you forgot to call launch() method?'' []],
      Inr JUndefined)"
  by (simp add: PagePool_launch_def launch_prepare_def get_default_def alias_update_def
        PagePool_constructor_def method_call_def nullish_def defaultPuppeteer_def
        no_browser_env_def calm_env_def PagePool_process_def debug_def)

text \<open>
  What the factory theorems ask of the instance is what \<^verbatim>\<open>launch\<close> leaves: the options
  stay an object, in both copies; and in part_000 a pool is only ever created next to a
  browser.
\<close>

lemma alias_update_plain_object:
  "plain_object opts \<Longrightarrow> plain_object (alias_update opts po)"
  by (auto simp: plain_object_iff alias_update_def split: option.splits)

lemma seq_Inr_iff:
  "seq c f = (evs, Inr y) \<longleftrightarrow>
     (\<exists>evs1 x evs2. c = (evs1, Inr x) \<and> f x = (evs2, Inr y) \<and> evs = evs1 @ evs2)"
proof (cases c)
  case (Pair evs1 r)
  then show ?thesis
    by (cases r; cases "f (projr r)") auto
qed

lemma launch_prepare_options:
  assumes "launch_prepare opts dflt = (evs, Inr (poolOptions, puppeteer, po, opts'))"
  shows "opts' = alias_update opts po"
  using assms unfolding launch_prepare_def
  by (auto simp: seq_Inr_iff)

lemma launch_keeps_plain_options:
  assumes "plain_object (options this)"
  shows "plain_object (options (snd (PagePool_launch env this)))"
    and "plain_object (options (snd (PagePool_launch_part000 env this)))"
  using assms alias_update_plain_object [OF assms]
  by (auto simp: PagePool_launch_def PagePool_launch_part000_def
        dest!: launch_prepare_options split: prod.splits sum.splits if_splits)

lemma launch_part000_pool_needs_browser:
  assumes "pool this = JNull"
    and "truthy (pool (snd (PagePool_launch_part000 env this)))"
  shows "truthy (browser (snd (PagePool_launch_part000 env this)))"
  using assms
  by (auto simp: PagePool_launch_part000_def split: prod.splits sum.splits if_splits)

section \<open>process\<close>

text \<open>
  Claim C7. A \<^verbatim>\<open>process\<close> call that violates a precondition emits exactly one
  diagnostic, resolves (nothing is raised) and touches neither the pool nor the handler:
  when there is no pool (the field is falsy, as the constructor leaves it), whatever the
  handler is, the diagnostic is the missing-pool one; when there is a pool and the handler
  is not a function, it is the handler one.
\<close>

theorem process_precondition_violation:
  "(\<not> truthy (pool this) \<longrightarrow>
      PagePool_process env this handler args =
        ([Debug ''pool is not found. Did you forgot to call launch() method?'' []],
         Inr JUndefined))
   \<and> (truthy (pool this) \<and> js_typeof handler \<noteq> ''function'' \<longrightarrow>
      PagePool_process env this handler args =
        ([Debug ''handler is not a function'' []], Inr JUndefined))
   \<and> PagePool_process env (PagePool_constructor arg) handler args =
        ([Debug ''pool is not found. Did you forgot to call launch() method?'' []],
         Inr JUndefined)"
  by (simp add: PagePool_process_def debug_def PagePool_constructor_def Let_def)

theorem process_precondition_violation_witness:
  "\<not> truthy (pool (launched\<lparr>pool := JNull\<rparr>))
   \<and> PagePool_process calm_env (launched\<lparr>pool := JNull\<rparr>) (JStr ''not a function'') [] =
       ([Debug ''pool is not found. Did you forgot to call launch() method?'' []],
        Inr JUndefined)
   \<and> truthy (pool launched) \<and> js_typeof JUndefined \<noteq> ''function''
   \<and> PagePool_process calm_env launched JUndefined [] =
       ([Debug ''handler is not a function'' []], Inr JUndefined)"
  using process_precondition_violation
      [of "launched\<lparr>pool := JNull\<rparr>" calm_env "JStr ''not a function''" "[]" JUndefined]
    process_precondition_violation [of launched calm_env JUndefined "[]" JUndefined]
  by (simp add: launched_def a_pool_def)

text \<open>
  Claim C1, as stated, fails: on a launched instance with a function as handler,
  \<^verbatim>\<open>process\<close> does not always invoke the handler exactly once. When the pool cannot
  give a page, the acquisition inside \<^verbatim>\<open>use\<close> fails, the handler is never called
  (the trace holds no \<open>Call\<close>), the failure is reported, and \<^verbatim>\<open>process\<close> resolves.
\<close>

theorem process_handler_not_called:
  "truthy (pool launched) \<and> js_typeof (JFun 0) = ''function''
   \<and> PagePool_process no_acquire_env launched (JFun 0) [JStr ''a'', JStr ''b''] =
     ([Use a_pool, Acquire a_pool, Debug ''process error: %s'' [an_error]], Inr JUndefined)"
  by (simp add: PagePool_process_def spec_use_def skip_def launched_def a_pool_def
        no_acquire_env_def calm_env_def)

text \<open>
  Claim C1, amended. With a pool and a function as handler, and the pool's \<^verbatim>\<open>use\<close> as
  the spec describes it: \<^verbatim>\<open>process\<close> calls \<^verbatim>\<open>use\<close> once. When a page is acquired,
  the handler is invoked exactly once, with the page first, the given arguments in order
  and the pool last; the page is released after the handler, whether the handler
  completed or failed; and a handler failure is reported as one diagnostic. When no page
  is acquired, the handler is not invoked and the acquisition failure is reported as one
  diagnostic. In every case \<^verbatim>\<open>process\<close> resolves: nothing is raised to its caller.
\<close>

theorem process_handler_once:
  assumes "truthy (pool this)" and "js_typeof handler = ''function''"
    and "pool_use env (pool this) = spec_use acquired (pool this)"
  shows "PagePool_process env this handler args =
     (Use (pool this) # Acquire (pool this) #
        (case acquired of
           Inl e \<Rightarrow> [Debug ''process error: %s'' [e]]
         | Inr page \<Rightarrow>
             Call handler (page # args @ [pool this]) # Release (pool this) page #
               (case js_await (fn_call env handler (page # args @ [pool this])) of
                  Inl e \<Rightarrow> [Debug ''process error: %s'' [e]]
                | Inr v \<Rightarrow> [])),
      Inr JUndefined)"
  using assms
  by (simp add: PagePool_process_def spec_use_def skip_def split: sum.splits)

theorem process_handler_once_witness:
  "PagePool_process calm_env launched (JFun 0) [JStr ''a'', JStr ''b''] =
     ([Use a_pool, Acquire a_pool, Call (JFun 0) [a_page, JStr ''a'', JStr ''b'', a_pool],
       Release a_pool a_page], Inr JUndefined)
   \<and> PagePool_process failing_hooks_env launched (JFun 0) [JStr ''a'', JStr ''b''] =
     ([Use a_pool, Acquire a_pool, Call (JFun 0) [a_page, JStr ''a'', JStr ''b'', a_pool],
       Release a_pool a_page, Debug ''process error: %s'' [an_error]], Inr JUndefined)
   \<and> PagePool_process no_acquire_env launched (JFun 1) [] =
     ([Use a_pool, Acquire a_pool, Debug ''process error: %s'' [an_error]], Inr JUndefined)"
  using process_handler_once
      [of launched "JFun 0" calm_env "Inr a_page" "[JStr ''a'', JStr ''b'']"]
    process_handler_once
      [of launched "JFun 0" failing_hooks_env "Inr a_page" "[JStr ''a'', JStr ''b'']"]
    process_handler_once [of launched "JFun 1" no_acquire_env "Inl an_error" "[]"]
  by (simp add: launched_def a_pool_def failing_hooks_env_def no_acquire_env_def calm_env_def)

section \<open>destroy\<close>

text \<open>
  Claim C8, as stated, fails: \<^verbatim>\<open>destroy()\<close> does not always return \<^verbatim>\<open>null\<close>. On a
  launched instance whose browser rejects \<^verbatim>\<open>close()\<close>, the pool is drained and cleared,
  then \<^verbatim>\<open>destroy()\<close> rejects with the browser's error, and the three fields keep their
  values.
\<close>

theorem destroy_raises:
  "PagePool_destroy stuck_browser_env launched =
     (([Drain a_pool, Clear a_pool, Debug ''pool is closed'' [], BrowserClose a_browser],
       Inl an_error), launched)
   \<and> launched \<noteq> \<lparr> browser = JNull, options = JNull, pool = JNull \<rparr>"
  by (simp add: PagePool_destroy_def debug_def skip_def stuck_browser_env_def calm_env_def
        launched_def a_pool_def a_browser_def)

text \<open>
  Claim C8, amended. Provided the pool's \<^verbatim>\<open>drain()\<close> and \<^verbatim>\<open>clear()\<close> and the
  browser's \<^verbatim>\<open>close()\<close> complete when they are called: \<^verbatim>\<open>destroy()\<close> drains then
  clears the pool (only if there is a pool), then closes the browser (only if there is a
  browser), then sets \<^verbatim>\<open>browser\<close>, \<^verbatim>\<open>options\<close> and \<^verbatim>\<open>pool\<close> to \<^verbatim>\<open>null\<close> and
  returns \<^verbatim>\<open>null\<close>; on an instance that was never launched it performs no pool or
  browser operation, and still resets the fields and returns \<^verbatim>\<open>null\<close>.
\<close>

theorem destroy_resets:
  assumes "truthy (pool this) \<longrightarrow>
             completes (pool_drain env (pool this)) \<and> completes (pool_clear env (pool this))"
    and "truthy (browser this) \<longrightarrow> completes (browser_close env (browser this))"
  shows "PagePool_destroy env this =
     (((if truthy (pool this)
        then [Drain (pool this), Clear (pool this), Debug ''pool is closed'' []] else [])
       @ (if truthy (browser this)
          then [BrowserClose (browser this), Debug ''browser is closed'' []] else []),
       Inr JNull),
      \<lparr> browser = JNull, options = JNull, pool = JNull \<rparr>)"
  using assms
  by (cases "pool_drain env (pool this)"; cases "pool_clear env (pool this)";
      cases "browser_close env (browser this)")
     (simp_all add: PagePool_destroy_def debug_def skip_def)

theorem destroy_resets_witness:
  "PagePool_destroy calm_env launched =
     (([Drain a_pool, Clear a_pool, Debug ''pool is closed'' [],
        BrowserClose a_browser, Debug ''browser is closed'' []], Inr JNull),
      \<lparr> browser = JNull, options = JNull, pool = JNull \<rparr>)
   \<and> PagePool_destroy stuck_browser_env (PagePool_constructor JUndefined) =
     (([], Inr JNull), \<lparr> browser = JNull, options = JNull, pool = JNull \<rparr>)"
  using destroy_resets [of launched calm_env]
    destroy_resets [of "PagePool_constructor JUndefined" stuck_browser_env]
  by (simp add: launched_def a_pool_def a_browser_def calm_env_def PagePool_constructor_def)

section \<open>The pool engine: borrowed pages and the maximum\<close>

lemma length_unborrow:
  "p \<in> snd ` set bs \<Longrightarrow> Suc (length (unborrow p bs)) = length bs"
  by (induction bs) (force split: if_splits)+

lemma lend_max_size: "max_size (lend valid r made s) = max_size s"
  by (simp add: lend_def split: list.splits option.splits)

lemma lend_capacity:
  assumes "length (idle s) + length (borrowed s) \<le> max_size s"
    and "idle s = [] \<longrightarrow> length (borrowed s) < max_size s"
  shows "length (idle (lend valid r made s)) + length (borrowed (lend valid r made s))
           \<le> max_size s"
  using assms by (auto simp: lend_def split: list.splits option.splits)

lemma lend_waiting: "waiting (lend valid r made s) = waiting s"
  by (simp add: lend_def split: list.splits option.splits)

lemma lend_idle_stays_empty: "idle s = [] \<Longrightarrow> idle (lend valid r made s) = []"
  by (auto simp: lend_def split: list.splits option.splits)

lemma acquire_within_capacity:
  "within_capacity s \<Longrightarrow> within_capacity (acquire valid r made s)"
  unfolding within_capacity_def acquire_def
  using lend_capacity [of s valid r made] lend_idle_stays_empty [of s valid r made]
  by (auto simp: lend_max_size lend_waiting)

lemma release_within_capacity:
  assumes inv: "within_capacity s"
  shows "within_capacity (release valid p made s)"
proof (cases "p \<in> snd ` set (borrowed s)")
  case False
  with inv show ?thesis
    by (simp add: release_def)
next
  case True
  let ?s' = "s\<lparr> borrowed := unborrow p (borrowed s), idle := idle s @ [p] \<rparr>"
  have len: "length (idle ?s') + length (borrowed ?s') \<le> max_size s"
    using inv length_unborrow [OF True] by (simp add: within_capacity_def)
  show ?thesis
  proof (cases "waiting s")
    case Nil
    with True len show ?thesis
      by (simp add: release_def within_capacity_def Let_def)
  next
    case (Cons r rs)
    with inv have empty: "idle s = []" by (simp add: within_capacity_def)
    let ?t = "?s'\<lparr> waiting := rs \<rparr>"
    have "length (idle (lend valid r made ?t)) + length (borrowed (lend valid r made ?t))
            \<le> max_size ?t"
      using len by (intro lend_capacity) simp_all
    moreover have "idle (lend valid r made ?t) = []"
      using empty by (auto simp: lend_def split: option.splits)
    ultimately show ?thesis
      using True Cons by (simp add: release_def within_capacity_def Let_def lend_max_size)
  qed
qed

lemma pool_step_within_capacity:
  "within_capacity s \<Longrightarrow> within_capacity (pool_step valid s op)"
  by (cases op) (simp_all add: acquire_within_capacity release_within_capacity)

lemma foldl_within_capacity:
  "within_capacity s \<Longrightarrow> within_capacity (foldl (pool_step valid) s ops)"
  by (induction ops arbitrary: s) (simp_all add: pool_step_within_capacity)

lemma pool_step_max_size: "max_size (pool_step valid s op) = max_size s"
  by (cases op) (simp_all add: acquire_def release_def lend_max_size Let_def split: list.splits)

lemma foldl_max_size: "max_size (foldl (pool_step valid) s ops) = max_size s"
  by (induction ops arbitrary: s) (simp_all add: pool_step_max_size)

lemma run_pool_within_capacity: "within_capacity (run_pool valid m ops)"
  unfolding run_pool_def
  by (rule foldl_within_capacity) (simp add: within_capacity_def new_engine_def)

lemma run_pool_max_size: "max_size (run_pool valid m ops) = m"
  by (simp add: run_pool_def foldl_max_size new_engine_def)

text \<open>
  Claim C9. After every sequence of \<^verbatim>\<open>acquire\<close> and \<^verbatim>\<open>release\<close> calls on an engine
  with maximum \<open>m\<close>, at most \<open>m\<close> pages are borrowed. When \<open>m\<close> pages are
  borrowed, a further \<^verbatim>\<open>acquire\<close> lends nothing and its caller joins the end of the
  queue; and when a borrowed page that is still valid is released while requests wait,
  the first of them gets that page and leaves the queue.
\<close>

theorem borrowed_within_max:
  "length (borrowed (run_pool valid m ops)) \<le> m
   \<and> (length (borrowed (run_pool valid m ops)) = m \<longrightarrow>
        borrowed (acquire valid r made (run_pool valid m ops)) = borrowed (run_pool valid m ops)
        \<and> waiting (acquire valid r made (run_pool valid m ops))
            = waiting (run_pool valid m ops) @ [r])
   \<and> (\<forall>w ws p. waiting (run_pool valid m ops) = w # ws
         \<and> p \<in> snd ` set (borrowed (run_pool valid m ops)) \<and> valid p \<longrightarrow>
        borrowed (release valid p made (run_pool valid m ops))
          = unborrow p (borrowed (run_pool valid m ops)) @ [(w, p)]
        \<and> waiting (release valid p made (run_pool valid m ops)) = ws)"
proof -
  let ?s = "run_pool valid m ops"
  have inv: "within_capacity ?s" by (rule run_pool_within_capacity)
  have m: "max_size ?s = m" by (rule run_pool_max_size)
  have a: "length (borrowed ?s) \<le> m"
    using inv m by (simp add: within_capacity_def)
  have b: "length (borrowed ?s) = m \<longrightarrow>
        borrowed (acquire valid r made ?s) = borrowed ?s
        \<and> waiting (acquire valid r made ?s) = waiting ?s @ [r]"
    using inv m by (auto simp: within_capacity_def acquire_def)
  have c: "\<forall>w ws p. waiting ?s = w # ws \<and> p \<in> snd ` set (borrowed ?s) \<and> valid p \<longrightarrow>
        borrowed (release valid p made ?s) = unborrow p (borrowed ?s) @ [(w, p)]
        \<and> waiting (release valid p made ?s) = ws"
    using inv by (auto simp: within_capacity_def release_def lend_def Let_def)
  from a b c show ?thesis by blast
qed

lemma two_borrowers_state:
  "run_pool all_valid 1 two_borrowers =
     \<lparr> max_size = 1, idle = [], borrowed = [(1, a_page)], waiting = [2] \<rparr>"
  by (simp add: run_pool_def two_borrowers_def new_engine_def acquire_def lend_def)

theorem borrowed_within_max_witness:
  "length (borrowed (run_pool all_valid 1 two_borrowers)) = 1
   \<and> borrowed (acquire all_valid 3 None (run_pool all_valid 1 two_borrowers)) = [(1, a_page)]
   \<and> waiting (acquire all_valid 3 None (run_pool all_valid 1 two_borrowers)) = [2, 3]
   \<and> borrowed (release all_valid a_page None (run_pool all_valid 1 two_borrowers))
       = [(2, a_page)]
   \<and> waiting (release all_valid a_page None (run_pool all_valid 1 two_borrowers)) = []"
  using borrowed_within_max [of all_valid 1 two_borrowers 3 None]
  unfolding two_borrowers_state
  by (simp add: all_valid_def)

end
